theory Spec2Isabelle
  imports Main
begin

section \<open>Data model\<close>

text \<open>
  The handlers \<open>InitiateAuth\<close> (src/targets/initiateAuth.ts) and
  \<open>AdminSetUserMFAPreference\<close> (src/targets/adminSetUserMFAPreference.ts) are small
  orchestrators over the services of the emulator. Every \<open>throw\<close> of the source is
  a value \<open>Inl e\<close>; the mutable store the services share is the record \<open>world\<close>,
  passed in and returned.
\<close>

datatype error =
    InvalidParameterError string
  | InvalidPasswordError
  | NotAuthorizedError
  | PasswordResetRequiredError
  | UnsupportedError string
  | UserNotConfirmedException
  | ResourceNotFoundError
  | UserNotFoundError
  | TriggerError string

datatype userStatus =
    UNCONFIRMED | CONFIRMED | ARCHIVED | COMPROMISED | UNKNOWN
  | RESET_REQUIRED | FORCE_CHANGE_PASSWORD | EXTERNAL_PROVIDER

datatype mfaConfiguration = OFF | OPTIONAL | ON

record attributeType =
  Name :: string
  Value :: string

record mfaOption =
  DeliveryMedium :: string
  AttributeName :: string

record user =
  Username :: string
  Password :: string
  UserStatus :: userStatus
  Enabled :: bool
  Attributes :: "attributeType list"
  MFAOptions :: "mfaOption list option"
  UserMFASettingList :: "string list option"
  PreferredMfaSetting :: "string option"
  MFACode :: "string option"
  RefreshTokens :: "string list"
  UserLastModifiedDate :: nat

record appClient =
  client_ClientId :: string
  client_UserPoolId :: string
  ClientName :: string

record group =
  GroupName :: string
  members :: "string list"

record userPool =
  options_Id :: string
  options_MfaConfiguration :: "mfaConfiguration option"
  Users :: "user list"
  Clients :: "appClient list"
  Groups :: "group list"

record tokens =
  AccessToken :: string
  IdToken :: string
  RefreshToken :: string
  ExpiresIn :: "nat option"
  TokenType :: "string option"

record initiateAuthRequest =
  AuthFlow :: string
  ClientId :: string
  AuthParameters :: "(string \<rightharpoonup> string) option"
  ClientMetadata :: "(string \<rightharpoonup> string) option"

record initiateAuthResponse =
  ChallengeName :: "string option"
  ChallengeParameters :: "(string \<times> string) list option"
  Session :: "string option"
  AuthenticationResult :: "tokens option"

record mfaSettings =
  mfa_Enabled :: "bool option"
  PreferredMfa :: "bool option"

record adminSetUserMFAPreferenceRequest =
  adm_UserPoolId :: string
  adm_Username :: string
  SMSMfaSettings :: "mfaSettings option"
  SoftwareTokenMfaSettings :: "mfaSettings option"
  adm_ClientId :: "string option"
  adm_ClientMetadata :: "(string \<rightharpoonup> string) option"

record mfaPreference =
  pref_SMSMfaSettings :: "mfaSettings option"
  pref_SoftwareTokenMfaSettings :: "mfaSettings option"

text \<open>The payloads the handlers hand to the trigger runtime.\<close>

record userMigrationEvent =
  um_clientId :: string
  um_password :: "string option"
  um_userAttributes :: "attributeType list"
  um_username :: "string option"
  um_userPoolId :: string
  um_clientMetadata :: "(string \<rightharpoonup> string) option"
  um_validationData :: "(string \<rightharpoonup> string) option"

record postAuthenticationEvent =
  pa_clientId :: "string option"
  pa_clientMetadata :: "(string \<rightharpoonup> string) option"
  pa_source :: string
  pa_userAttributes :: "attributeType list"
  pa_username :: string
  pa_userPoolId :: string

text \<open>
  The calls a handler makes to the trigger runtime and to the token generator, in the
  order it makes them. The log is bookkeeping of the model: no handler reads it.
\<close>

datatype call =
    UserMigrationCall userMigrationEvent
  | PostAuthenticationCall postAuthenticationEvent
  | GenerateCall string string

record world =
  pools :: "string \<rightharpoonup> userPool"
  clientIndex :: "string \<rightharpoonup> string"
  clock :: nat
  uuids :: "nat \<Rightarrow> string"
  uuidsUsed :: nat
  calls :: "call list"

text \<open>
  The collaborators whose code is outside the handlers and whose behaviour the
  specification leaves to configuration: the trigger runtime (which hooks the pool binds
  and what the bound handlers answer), the token generator, the helper that renders a
  user's attributes as JSON for the \<open>NEW_PASSWORD_REQUIRED\<close> challenge
  (\<open>JSON.stringify (attributesToRecord attrs)\<close>) and the field update behind
  \<open>setUserMFAPreference\<close>. They are parameters of every handler. The generator is
  given the wall clock and one draw of the identifier supply as its time and randomness,
  then the arguments of the source's call.
\<close>

record services =
  triggers_enabled :: "string \<Rightarrow> bool"
  triggers_userMigration :: "userMigrationEvent \<Rightarrow> error + user option"
  triggers_postAuthentication :: "postAuthenticationEvent \<Rightarrow> error option"
  tokenGenerator_generate ::
    "nat \<Rightarrow> string \<Rightarrow> user \<Rightarrow> string list \<Rightarrow> appClient
       \<Rightarrow> (string \<rightharpoonup> string) option \<Rightarrow> string \<Rightarrow> error + tokens"
  attributesJson :: "attributeType list \<Rightarrow> string"
  mfaPreferenceFields :: "user \<Rightarrow> mfaPreference \<Rightarrow> user"

section \<open>The user pool store and the facade\<close>

text \<open>
  Modelled from the spec: the Cognito facade (\<open>getUserPool\<close>,
  \<open>getUserPoolForClientId\<close>, \<open>getAppClient\<close>) is not among the sources. Section 4.5:
  the facade keeps \<open>pools\<close> and \<open>clientIndex\<close>; \<open>getUserPoolForClientId\<close>
  resolves through the index and fails with \<open>ResourceNotFound\<close> when the client is
  unknown; \<open>getAppClient\<close> scans the clients of the resolved pool. A pool handle is
  the pool's id: the services read and write the pool of that id in the \<open>world\<close>.
  No handler here deletes a pool; a handle without pool would read no user and write
  nothing.
\<close>

definition getUserPool :: "world \<Rightarrow> string \<Rightarrow> error + string" where
  "getUserPool w pid =
     (case pools w pid of None \<Rightarrow> Inl ResourceNotFoundError | Some p \<Rightarrow> Inr pid)"

definition getUserPoolForClientId :: "world \<Rightarrow> string \<Rightarrow> error + string" where
  "getUserPoolForClientId w cid =
     (case clientIndex w cid of
        None \<Rightarrow> Inl ResourceNotFoundError
      | Some pid \<Rightarrow> getUserPool w pid)"

definition getAppClient :: "world \<Rightarrow> string \<Rightarrow> appClient option" where
  "getAppClient w cid =
     (case clientIndex w cid of
        None \<Rightarrow> None
      | Some pid \<Rightarrow>
          (case pools w pid of
             None \<Rightarrow> None
           | Some p \<Rightarrow> find (\<lambda>c. client_ClientId c = cid) (Clients p)))"

definition options_of :: "world \<Rightarrow> string \<Rightarrow> mfaConfiguration option" where
  "options_of w pid =
     (case pools w pid of None \<Rightarrow> None | Some p \<Rightarrow> options_MfaConfiguration p)"

text \<open>
  Modelled from the spec: the user pool service (\<open>getUserByUsername\<close>,
  \<open>getUserByRefreshToken\<close>, \<open>saveUser\<close>, \<open>storeRefreshToken\<close>,
  \<open>listUserGroupMembership\<close>, \<open>setUserMFAPreference\<close>) is not among the sources.
  Sections 3 and 4.2: a user is keyed by \<open>Username\<close>, case-preserving with
  case-insensitive lookup; the refresh-token index is derived from the users' token
  sets; \<open>saveUser\<close> is an upsert that stamps \<open>LastModifiedDate\<close> with the wall
  clock; \<open>storeRefreshToken\<close> adds the token to the user's set (storing it twice
  leaves the set unchanged) and saves. A lookup returns the user or null: the
  undefined name of a request without \<open>USERNAME\<close> finds nobody.
  \<open>listUserGroupMembership\<close> names the groups that list the user. The field update
  of \<open>setUserMFAPreference\<close> is the parameter \<open>mfaPreferenceFields\<close>; its result is
  saved.
\<close>

definition lower :: "char \<Rightarrow> char" where
  "lower c =
     (if 65 \<le> (of_char c :: nat) \<and> (of_char c :: nat) \<le> 90
      then char_of ((of_char c :: nat) + 32) else c)"

definition same_name :: "string \<Rightarrow> string \<Rightarrow> bool" where
  "same_name a b = (map lower a = map lower b)"

definition users_of :: "world \<Rightarrow> string \<Rightarrow> user list" where
  "users_of w pid = (case pools w pid of None \<Rightarrow> [] | Some p \<Rightarrow> Users p)"

definition getUserByUsername :: "world \<Rightarrow> string \<Rightarrow> string option \<Rightarrow> user option" where
  "getUserByUsername w pid username =
     (case username of
        None \<Rightarrow> None
      | Some n \<Rightarrow> find (\<lambda>u. same_name (Username u) n) (users_of w pid))"

definition getUserByRefreshToken :: "world \<Rightarrow> string \<Rightarrow> string \<Rightarrow> user option" where
  "getUserByRefreshToken w pid t = find (\<lambda>u. t \<in> set (RefreshTokens u)) (users_of w pid)"

fun upsert :: "user \<Rightarrow> user list \<Rightarrow> user list" where
  "upsert u [] = [u]"
| "upsert u (x # xs) =
     (if same_name (Username x) (Username u) then u # xs else x # upsert u xs)"

definition saveUser :: "world \<Rightarrow> string \<Rightarrow> user \<Rightarrow> world" where
  "saveUser w pid u =
     (case pools w pid of
        None \<Rightarrow> w
      | Some p \<Rightarrow>
          w\<lparr>pools := (pools w)(pid \<mapsto>
               p\<lparr>Users := upsert (u\<lparr>UserLastModifiedDate := clock w\<rparr>) (Users p)\<rparr>)\<rparr>)"

definition storeRefreshToken :: "world \<Rightarrow> string \<Rightarrow> string \<Rightarrow> user \<Rightarrow> world" where
  "storeRefreshToken w pid t u =
     saveUser w pid
       (u\<lparr>RefreshTokens :=
            (if t \<in> set (RefreshTokens u) then RefreshTokens u else RefreshTokens u @ [t])\<rparr>)"

definition listUserGroupMembership :: "world \<Rightarrow> string \<Rightarrow> user \<Rightarrow> string list" where
  "listUserGroupMembership w pid u =
     (case pools w pid of
        None \<Rightarrow> []
      | Some p \<Rightarrow> map GroupName (filter (\<lambda>g. Username u \<in> set (members g)) (Groups p)))"

definition setUserMFAPreference ::
  "services \<Rightarrow> world \<Rightarrow> string \<Rightarrow> user \<Rightarrow> mfaPreference \<Rightarrow> world" where
  "setUserMFAPreference srv w pid u pref = saveUser w pid (mfaPreferenceFields srv u pref)"

text \<open>\<open>v4 ()\<close> of the uuid library: the next identifier of the world's supply.\<close>

definition v4 :: "world \<Rightarrow> string \<times> world" where
  "v4 w = (uuids w (uuidsUsed w), w\<lparr>uuidsUsed := Suc (uuidsUsed w)\<rparr>)"

text \<open>
  Modelled from the spec: the trigger runtime is not among the sources. Section 4.3:
  a user returned by the \<open>UserMigration\<close> hook is persisted. The handlers' calls are
  logged.
\<close>

definition userMigration ::
  "services \<Rightarrow> world \<Rightarrow> userMigrationEvent \<Rightarrow> (error + user option) \<times> world" where
  "userMigration srv w ev =
     (let w1 = w\<lparr>calls := calls w @ [UserMigrationCall ev]\<rparr> in
      case triggers_userMigration srv ev of
        Inl e \<Rightarrow> (Inl e, w1)
      | Inr None \<Rightarrow> (Inr None, w1)
      | Inr (Some u) \<Rightarrow> (Inr (Some u), saveUser w1 (um_userPoolId ev) u))"

definition postAuthentication ::
  "services \<Rightarrow> world \<Rightarrow> postAuthenticationEvent \<Rightarrow> error option \<times> world" where
  "postAuthentication srv w ev =
     (triggers_postAuthentication srv ev, w\<lparr>calls := calls w @ [PostAuthenticationCall ev]\<rparr>)"

definition generate ::
  "services \<Rightarrow> world \<Rightarrow> user \<Rightarrow> string list \<Rightarrow> appClient \<Rightarrow> (string \<rightharpoonup> string) option
     \<Rightarrow> string \<Rightarrow> (error + tokens) \<times> world" where
  "generate srv w u gs client md reason =
     (let (seed, w1) = v4 w in
      (tokenGenerator_generate srv (clock w) seed u gs client md reason,
       w1\<lparr>calls := calls w1 @ [GenerateCall (Username u) reason]\<rparr>))"

section \<open>InitiateAuth\<close>

definition verifyMfaChallenge ::
  "world \<Rightarrow> user \<Rightarrow> string \<Rightarrow> (error + initiateAuthResponse) \<times> world" where
  "verifyMfaChallenge w u pid =
     (if (case UserMFASettingList u of None \<Rightarrow> True | Some l \<Rightarrow> length l = 0)
      then (Inl NotAuthorizedError, w)
      else if \<not> (case UserMFASettingList u of
                    None \<Rightarrow> False
                  | Some l \<Rightarrow> ''SOFTWARE_TOKEN_MFA'' \<in> set l)
      then (Inl (UnsupportedError ''MFA challenge without SOFTWARE_TOKEN''), w)
      else
        let code = ''999999'';
            w1 = saveUser w pid (u\<lparr>MFACode := Some code\<rparr>);
            (session, w2) = v4 w1
        in (Inr \<lparr>ChallengeName = Some ''SOFTWARE_TOKEN_MFA'',
                 ChallengeParameters = Some [(''USER_ID_FOR_SRP'', Username u)],
                 Session = Some session,
                 AuthenticationResult = None\<rparr>, w2))"

definition verifyPasswordChallenge ::
  "services \<Rightarrow> world \<Rightarrow> user \<Rightarrow> string \<Rightarrow> appClient
     \<Rightarrow> (error + initiateAuthResponse) \<times> world" where
  "verifyPasswordChallenge srv w u pid userPoolClient =
     (let userGroups = listUserGroupMembership w pid u in
      case generate srv w u userGroups userPoolClient None ''Authentication'' of
        (Inl e, w1) \<Rightarrow> (Inl e, w1)
      | (Inr toks, w1) \<Rightarrow>
          (Inr \<lparr>ChallengeName = Some ''PASSWORD_VERIFIER'',
                ChallengeParameters = Some [],
                Session = None,
                AuthenticationResult = Some toks\<rparr>,
           storeRefreshToken w1 pid (RefreshToken toks) u))"

definition newPasswordChallenge ::
  "services \<Rightarrow> world \<Rightarrow> user \<Rightarrow> initiateAuthResponse \<times> world" where
  "newPasswordChallenge srv w u =
     (let (session, w1) = v4 w in
      (\<lparr>ChallengeName = Some ''NEW_PASSWORD_REQUIRED'',
        ChallengeParameters =
          Some [(''USER_ID_FOR_SRP'', Username u),
                (''requiredAttributes'', ''[]''),
                (''userAttributes'', attributesJson srv (Attributes u))],
        Session = Some session,
        AuthenticationResult = None\<rparr>, w1))"

definition userPasswordAuthFlow ::
  "services \<Rightarrow> world \<Rightarrow> initiateAuthRequest \<Rightarrow> string \<Rightarrow> appClient
     \<Rightarrow> (error + initiateAuthResponse) \<times> world" where
  "userPasswordAuthFlow srv w req pid userPoolClient =
     (case AuthParameters req of
        None \<Rightarrow> (Inl (InvalidParameterError ''Missing required parameter authParameters''), w)
      | Some ap \<Rightarrow>
          (case (case getUserByUsername w pid (ap ''USERNAME'') of
                   Some u \<Rightarrow> (Inr (Some u), w)
                 | None \<Rightarrow>
                     if triggers_enabled srv ''UserMigration''
                     then userMigration srv w
                            \<lparr>um_clientId = ClientId req,
                             um_password = ap ''PASSWORD'',
                             um_userAttributes = [],
                             um_username = ap ''USERNAME'',
                             um_userPoolId = pid,
                             um_clientMetadata = None,
                             um_validationData = ClientMetadata req\<rparr>
                     else (Inr None, w)) of
             (Inl e, w1) \<Rightarrow> (Inl e, w1)
           | (Inr None, w1) \<Rightarrow> (Inl NotAuthorizedError, w1)
           | (Inr (Some u), w1) \<Rightarrow>
               if UserStatus u = RESET_REQUIRED then (Inl PasswordResetRequiredError, w1)
               else if UserStatus u = FORCE_CHANGE_PASSWORD
               then (let (resp, w2) = newPasswordChallenge srv w1 u in (Inr resp, w2))
               else if Some (Password u) \<noteq> ap ''PASSWORD'' then (Inl InvalidPasswordError, w1)
               else if UserStatus u = UNCONFIRMED then (Inl UserNotConfirmedException, w1)
               else if (options_of w1 pid = Some OPTIONAL
                          \<and> length (case MFAOptions u of None \<Rightarrow> [] | Some l \<Rightarrow> l) > 0)
                        \<or> options_of w1 pid = Some ON
               then verifyMfaChallenge w1 u pid
               else
                 (case (if triggers_enabled srv ''PostAuthentication''
                        then postAuthentication srv w1
                               \<lparr>pa_clientId = Some (ClientId req),
                                pa_clientMetadata = None,
                                pa_source = ''PostAuthentication_Authentication'',
                                pa_userAttributes = Attributes u,
                                pa_username = Username u,
                                pa_userPoolId = pid\<rparr>
                        else (None, w1)) of
                    (Some e, w2) \<Rightarrow> (Inl e, w2)
                  | (None, w2) \<Rightarrow> verifyPasswordChallenge srv w2 u pid userPoolClient)))"

definition refreshTokenAuthFlow ::
  "services \<Rightarrow> world \<Rightarrow> initiateAuthRequest \<Rightarrow> string \<Rightarrow> appClient
     \<Rightarrow> (error + initiateAuthResponse) \<times> world" where
  "refreshTokenAuthFlow srv w req pid userPoolClient =
     (case AuthParameters req of
        None \<Rightarrow> (Inl (InvalidParameterError ''Missing required parameter authParameters''), w)
      | Some ap \<Rightarrow>
          (case (case ap ''REFRESH_TOKEN'' of
                   None \<Rightarrow> None
                 | Some t \<Rightarrow> if t = [] then None else Some t) of
             None \<Rightarrow> (Inl (InvalidParameterError ''AuthParameters REFRESH_TOKEN is required''), w)
           | Some t \<Rightarrow>
               (case getUserByRefreshToken w pid t of
                  None \<Rightarrow> (Inl NotAuthorizedError, w)
                | Some u \<Rightarrow>
                    (let userGroups = listUserGroupMembership w pid u in
                     case generate srv w u userGroups userPoolClient (ClientMetadata req)
                            ''RefreshTokens'' of
                       (Inl e, w1) \<Rightarrow> (Inl e, w1)
                     | (Inr toks, w1) \<Rightarrow>
                         (let (session, w2) = v4 w1 in
                          (Inr \<lparr>ChallengeName = None,
                                ChallengeParameters = None,
                                Session = Some session,
                                AuthenticationResult = Some toks\<rparr>, w2))))))"

definition InitiateAuth ::
  "services \<Rightarrow> world \<Rightarrow> initiateAuthRequest \<Rightarrow> (error + initiateAuthResponse) \<times> world" where
  "InitiateAuth srv w req =
     (case getUserPoolForClientId w (ClientId req) of
        Inl e \<Rightarrow> (Inl e, w)
      | Inr pid \<Rightarrow>
          (case getAppClient w (ClientId req) of
             None \<Rightarrow> (Inl NotAuthorizedError, w)
           | Some userPoolClient \<Rightarrow>
               if AuthFlow req = ''USER_PASSWORD_AUTH''
               then userPasswordAuthFlow srv w req pid userPoolClient
               else if AuthFlow req = ''REFRESH_TOKEN'' \<or> AuthFlow req = ''REFRESH_TOKEN_AUTH''
               then refreshTokenAuthFlow srv w req pid userPoolClient
               else (Inl (UnsupportedError (''InitAuth with AuthFlow='' @ AuthFlow req)), w)))"

text \<open>
  The payload \<open>userPasswordAuthFlow\<close> hands to the \<open>PostAuthentication\<close> hook
  (lines 155-162), named for the statements below.
\<close>

definition postAuthenticationEvent_of ::
  "initiateAuthRequest \<Rightarrow> string \<Rightarrow> user \<Rightarrow> postAuthenticationEvent" where
  "postAuthenticationEvent_of req pid u =
     \<lparr>pa_clientId = Some (ClientId req), pa_clientMetadata = None,
      pa_source = ''PostAuthentication_Authentication'',
      pa_userAttributes = Attributes u, pa_username = Username u,
      pa_userPoolId = pid\<rparr>"

section \<open>AdminSetUserMFAPreference\<close>

definition AdminSetUserMFAPreference ::
  "services \<Rightarrow> world \<Rightarrow> adminSetUserMFAPreferenceRequest \<Rightarrow> (error + unit) \<times> world" where
  "AdminSetUserMFAPreference srv w req =
     (case getUserPool w (adm_UserPoolId req) of
        Inl e \<Rightarrow> (Inl e, w)
      | Inr pid \<Rightarrow>
          (case getUserByUsername w pid (Some (adm_Username req)) of
             None \<Rightarrow> (Inl (InvalidParameterError ''User does not exist''), w)
           | Some u \<Rightarrow>
               (let smsMfaSettings =
                      (case SMSMfaSettings req of
                         Some s \<Rightarrow> Some \<lparr>mfa_Enabled = mfa_Enabled s, PreferredMfa = PreferredMfa s\<rparr>
                       | None \<Rightarrow> None);
                    softwareTokenMfaSettings =
                      (case SoftwareTokenMfaSettings req of
                         Some s \<Rightarrow> Some \<lparr>mfa_Enabled = mfa_Enabled s, PreferredMfa = PreferredMfa s\<rparr>
                       | None \<Rightarrow> None);
                    w1 = setUserMFAPreference srv w pid u
                           \<lparr>pref_SMSMfaSettings = smsMfaSettings,
                            pref_SoftwareTokenMfaSettings = softwareTokenMfaSettings\<rparr>
                in case (if triggers_enabled srv ''PostAuthentication''
                         then postAuthentication srv w1
                                \<lparr>pa_clientId = adm_ClientId req,
                                 pa_clientMetadata = adm_ClientMetadata req,
                                 pa_source = ''PostAuthentication_Authentication'',
                                 pa_userAttributes = Attributes u,
                                 pa_username = Username u,
                                 pa_userPoolId = pid\<rparr>
                         else (None, w1)) of
                     (Some e, w2) \<Rightarrow> (Inl e, w2)
                   | (None, w2) \<Rightarrow> (Inr (), w2))))"

section \<open>The scenarios of the specification\<close>

text \<open>
  Scenario S1: pool \<open>us-east-1_S1\<close>, client \<open>c1\<close>, user \<open>alice\<close> with password
  \<open>p@ss\<close>, status \<open>CONFIRMED\<close>, MFA \<open>OFF\<close>, no trigger bound. The token
  generator of the scenarios derives its three tokens from the identifier it draws.
\<close>

definition alice :: user where
  "alice = \<lparr>Username = ''alice'', Password = ''p@ss'', UserStatus = CONFIRMED,
             Enabled = True, Attributes = [], MFAOptions = None,
             UserMFASettingList = None, PreferredMfaSetting = None, MFACode = None,
             RefreshTokens = [], UserLastModifiedDate = 0\<rparr>"

definition c1 :: appClient where
  "c1 = \<lparr>client_ClientId = ''c1'', client_UserPoolId = ''us-east-1_S1'',
          ClientName = ''test''\<rparr>"

definition pool_with :: "mfaConfiguration \<Rightarrow> user list \<Rightarrow> userPool" where
  "pool_with mfa us =
     \<lparr>options_Id = ''us-east-1_S1'', options_MfaConfiguration = Some mfa,
      Users = us, Clients = [c1], Groups = []\<rparr>"

definition world_with :: "mfaConfiguration \<Rightarrow> user list \<Rightarrow> world" where
  "world_with mfa us =
     \<lparr>pools = [''us-east-1_S1'' \<mapsto> pool_with mfa us],
      clientIndex = [''c1'' \<mapsto> ''us-east-1_S1''],
      clock = 7,
      uuids = (\<lambda>n. ''uuid-'' @ replicate n (CHR ''x'')),
      uuidsUsed = 0,
      calls = []\<rparr>"

definition services_with :: "(string \<Rightarrow> bool) \<Rightarrow> error option \<Rightarrow> services" where
  "services_with bound answer =
     \<lparr>triggers_enabled = bound,
      triggers_userMigration = (\<lambda>ev. Inr None),
      triggers_postAuthentication = (\<lambda>ev. answer),
      tokenGenerator_generate =
        (\<lambda>now seed u gs c md reason.
           Inr \<lparr>AccessToken = ''access-'' @ seed, IdToken = ''id-'' @ seed,
                RefreshToken = ''refresh-'' @ seed, ExpiresIn = Some 3600,
                TokenType = Some ''Bearer''\<rparr>),
      attributesJson = (\<lambda>attrs. ''{}''),
      mfaPreferenceFields = (\<lambda>u pref. u)\<rparr>"

definition login :: "string \<Rightarrow> (string \<rightharpoonup> string) option \<Rightarrow> initiateAuthRequest" where
  "login flow ap =
     \<lparr>AuthFlow = flow, ClientId = ''c1'', AuthParameters = ap, ClientMetadata = None\<rparr>"

definition credentials :: "string \<Rightarrow> string \<Rightarrow> (string \<rightharpoonup> string) option" where
  "credentials name pw = Some [''USERNAME'' \<mapsto> name, ''PASSWORD'' \<mapsto> pw]"

definition setPreference :: "string \<Rightarrow> adminSetUserMFAPreferenceRequest" where
  "setPreference name =
     \<lparr>adm_UserPoolId = ''us-east-1_S1'', adm_Username = name,
      SMSMfaSettings = None,
      SoftwareTokenMfaSettings = Some \<lparr>mfa_Enabled = Some True, PreferredMfa = Some True\<rparr>,
      adm_ClientId = None, adm_ClientMetadata = None\<rparr>"

text \<open>
  Variants of the scenario: alice with a given \<open>UserMFASettingList\<close> (S2), alice
  holding two refresh tokens, and a refresh request (S5).
\<close>

definition alice_mfa :: "string list option \<Rightarrow> user" where
  "alice_mfa settings = alice\<lparr>UserMFASettingList := settings\<rparr>"

definition refresh :: "string \<Rightarrow> string \<Rightarrow> initiateAuthRequest" where
  "refresh flow t = login flow (Some [''REFRESH_TOKEN'' \<mapsto> t])"

definition alice_tokens :: user where
  "alice_tokens = alice\<lparr>RefreshTokens := [''rt-1'', ''rt-2'']\<rparr>"

text \<open>
  Scenario S6: the \<open>UserMigration\<close> hook is bound and returns a user; \<open>bob\<close> with
  password \<open>secret\<close> is not in the pool.
\<close>

definition bob :: user where
  "bob = alice\<lparr>Username := ''bob'', Password := ''secret''\<rparr>"

definition services_migrating :: "user \<Rightarrow> services" where
  "services_migrating u =
     (services_with (\<lambda>h. h = ''UserMigration'') None)
       \<lparr>triggers_userMigration := (\<lambda>ev. Inr (Some u))\<rparr>"

section \<open>Properties of the store and of the flows\<close>

lemma same_name_refl: "same_name a a"
  by (simp add: same_name_def)

lemma find_upsert: "find (\<lambda>x. same_name (Username x) (Username u)) (upsert u xs) = Some u"
  by (induction xs) (simp_all add: same_name_refl)

lemma resolved_pool_exists:
  assumes "getUserPoolForClientId w cid = Inr pid"
  shows "\<exists>p. pools w pid = Some p"
  using assms
  by (auto simp: getUserPoolForClientId_def getUserPool_def split: option.splits)

lemma getUserByUsername_saveUser:
  assumes "pools w pid = Some p"
  shows "getUserByUsername (saveUser w pid u) pid (Some (Username u))
           = Some (u\<lparr>UserLastModifiedDate := clock w\<rparr>)"
proof -
  have "find (\<lambda>x. same_name (Username x) (Username (u\<lparr>UserLastModifiedDate := clock w\<rparr>)))
          (upsert (u\<lparr>UserLastModifiedDate := clock w\<rparr>) (Users p))
        = Some (u\<lparr>UserLastModifiedDate := clock w\<rparr>)"
    by (rule find_upsert)
  then show ?thesis
    using assms by (simp add: getUserByUsername_def saveUser_def users_of_def)
qed

lemma InitiateAuth_dispatch_password:
  assumes "getUserPoolForClientId w (ClientId req) = Inr pid"
    and "getAppClient w (ClientId req) = Some client"
    and "AuthFlow req = ''USER_PASSWORD_AUTH''"
  shows "InitiateAuth srv w req = userPasswordAuthFlow srv w req pid client"
  using assms by (simp add: InitiateAuth_def)

lemma InitiateAuth_dispatch_refresh:
  assumes "getUserPoolForClientId w (ClientId req) = Inr pid"
    and "getAppClient w (ClientId req) = Some client"
    and "AuthFlow req = ''REFRESH_TOKEN'' \<or> AuthFlow req = ''REFRESH_TOKEN_AUTH''"
  shows "InitiateAuth srv w req = refreshTokenAuthFlow srv w req pid client"
  using assms by (auto simp: InitiateAuth_def)

lemma mfa_gate_iff:
  "((options_of w pid = Some OPTIONAL
       \<and> length (case MFAOptions u of None \<Rightarrow> [] | Some l \<Rightarrow> l) > 0)
     \<or> options_of w pid = Some ON)
   = (options_of w pid = Some ON
      \<or> (options_of w pid = Some OPTIONAL \<and> (\<exists>m ms. MFAOptions u = Some (m # ms))))"
  by (cases "MFAOptions u") (auto simp: neq_Nil_conv)

lemma saveUser_pools_cong:
  assumes "pools w1 = pools w2" and "clock w1 = clock w2"
  shows "pools (saveUser w1 pid u) = pools (saveUser w2 pid u)"
  using assms by (simp add: saveUser_def split: option.splits)

lemma userPasswordAuthFlow_checked:
  assumes "AuthParameters req = Some ap"
    and "getUserByUsername w pid (ap ''USERNAME'') = Some u"
    and "UserStatus u \<noteq> RESET_REQUIRED"
    and "UserStatus u \<noteq> FORCE_CHANGE_PASSWORD"
    and "UserStatus u \<noteq> UNCONFIRMED"
    and "ap ''PASSWORD'' = Some (Password u)"
  shows "userPasswordAuthFlow srv w req pid client =
           (if options_of w pid = Some ON
               \<or> (options_of w pid = Some OPTIONAL \<and> (\<exists>m ms. MFAOptions u = Some (m # ms)))
            then verifyMfaChallenge w u pid
            else if triggers_enabled srv ''PostAuthentication''
            then (case triggers_postAuthentication srv
                         \<lparr>pa_clientId = Some (ClientId req), pa_clientMetadata = None,
                          pa_source = ''PostAuthentication_Authentication'',
                          pa_userAttributes = Attributes u, pa_username = Username u,
                          pa_userPoolId = pid\<rparr> of
                    Some e \<Rightarrow>
                      (Inl e, w\<lparr>calls := calls w @ [PostAuthenticationCall
                         \<lparr>pa_clientId = Some (ClientId req), pa_clientMetadata = None,
                          pa_source = ''PostAuthentication_Authentication'',
                          pa_userAttributes = Attributes u, pa_username = Username u,
                          pa_userPoolId = pid\<rparr>]\<rparr>)
                  | None \<Rightarrow>
                      verifyPasswordChallenge srv
                        (w\<lparr>calls := calls w @ [PostAuthenticationCall
                         \<lparr>pa_clientId = Some (ClientId req), pa_clientMetadata = None,
                          pa_source = ''PostAuthentication_Authentication'',
                          pa_userAttributes = Attributes u, pa_username = Username u,
                          pa_userPoolId = pid\<rparr>]\<rparr>) u pid client)
            else verifyPasswordChallenge srv w u pid client)"
proof -
  have gate: "((options_of w pid = Some OPTIONAL
       \<and> length (case MFAOptions u of None \<Rightarrow> [] | Some l \<Rightarrow> l) > 0)
     \<or> options_of w pid = Some ON)
   = (options_of w pid = Some ON
      \<or> (options_of w pid = Some OPTIONAL \<and> (\<exists>m ms. MFAOptions u = Some (m # ms))))"
    by (rule mfa_gate_iff)
  show ?thesis
    using assms
    by (auto simp add: userPasswordAuthFlow_def postAuthentication_def gate
             split: option.splits simp del: length_greater_0_conv)
qed

lemma saveUser_calls: "calls (saveUser w pid u) = calls w"
  by (simp add: saveUser_def split: option.splits)

lemma refreshTokenAuthFlow_store_unchanged:
  "pools (snd (refreshTokenAuthFlow srv w req pid client)) = pools w"
  by (simp add: refreshTokenAuthFlow_def generate_def v4_def
        split: option.splits sum.splits)

lemma refreshTokenAuthFlow_unknown_token:
  assumes "AuthParameters req = Some ap"
    and "ap ''REFRESH_TOKEN'' = Some t"
    and "t \<noteq> []"
    and "getUserByRefreshToken w pid t = None"
  shows "refreshTokenAuthFlow srv w req pid client = (Inl NotAuthorizedError, w)"
  using assms by (simp add: refreshTokenAuthFlow_def)

lemma refreshTokenAuthFlow_calls:
  assumes "AuthParameters req = Some ap"
    and "ap ''REFRESH_TOKEN'' = Some t"
    and "t \<noteq> []"
    and "getUserByRefreshToken w pid t = Some u"
  shows "calls (snd (refreshTokenAuthFlow srv w req pid client))
           = calls w @ [GenerateCall (Username u) ''RefreshTokens'']"
  using assms
  by (simp add: refreshTokenAuthFlow_def generate_def v4_def split: sum.splits)

lemma verifyMfaChallenge_calls: "calls (snd (verifyMfaChallenge w u pid)) = calls w"
  by (simp add: verifyMfaChallenge_def v4_def saveUser_calls Let_def)

lemma verifyPasswordChallenge_calls:
  "calls (snd (verifyPasswordChallenge srv w u pid client))
     = calls w @ [GenerateCall (Username u) ''Authentication'']"
  by (simp add: verifyPasswordChallenge_def generate_def v4_def storeRefreshToken_def
        saveUser_calls split: sum.splits)

lemma userMigration_calls:
  "calls (snd (userMigration srv w ev)) = calls w @ [UserMigrationCall ev]"
  by (simp add: userMigration_def saveUser_calls Let_def split: sum.splits option.splits)

lemma refreshTokenAuthFlow_no_PostAuthentication:
  assumes "PostAuthenticationCall ev \<in> set (calls (snd (refreshTokenAuthFlow srv w req pid client)))"
  shows "PostAuthenticationCall ev \<in> set (calls w)"
  using assms
  by (auto simp: refreshTokenAuthFlow_def generate_def v4_def
        split: option.splits sum.splits if_splits)

lemma userPasswordAuthFlow_PostAuthentication_after_checks:
  assumes "PostAuthenticationCall ev \<in> set (calls (snd (userPasswordAuthFlow srv w req pid client)))"
    and "PostAuthenticationCall ev \<notin> set (calls w)"
  shows "\<exists>ap u. AuthParameters req = Some ap
           \<and> (getUserByUsername w pid (ap ''USERNAME'') = Some u
                \<or> getUserByUsername w pid (ap ''USERNAME'') = None
                  \<and> triggers_enabled srv ''UserMigration''
                  \<and> triggers_userMigration srv
                        \<lparr>um_clientId = ClientId req,
                         um_password = ap ''PASSWORD'',
                         um_userAttributes = [],
                         um_username = ap ''USERNAME'',
                         um_userPoolId = pid,
                         um_clientMetadata = None,
                         um_validationData = ClientMetadata req\<rparr> = Inr (Some u))
           \<and> ap ''PASSWORD'' = Some (Password u)
           \<and> UserStatus u \<notin> {RESET_REQUIRED, FORCE_CHANGE_PASSWORD, UNCONFIRMED}
           \<and> ev = postAuthenticationEvent_of req pid u"
proof (cases "AuthParameters req")
  case None
  then show ?thesis
    using assms by (simp add: userPasswordAuthFlow_def)
next
  case (Some ap)
  define found where "found =
    (case getUserByUsername w pid (ap ''USERNAME'') of
       Some u \<Rightarrow> (Inr (Some u), w)
     | None \<Rightarrow>
         if triggers_enabled srv ''UserMigration''
         then userMigration srv w
                \<lparr>um_clientId = ClientId req,
                 um_password = ap ''PASSWORD'',
                 um_userAttributes = [],
                 um_username = ap ''USERNAME'',
                 um_userPoolId = pid,
                 um_clientMetadata = None,
                 um_validationData = ClientMetadata req\<rparr>
         else (Inr None, w))"
  have log: "PostAuthenticationCall ev \<notin> set (calls (snd found))"
    using assms(2)
    by (auto simp: found_def userMigration_calls split: option.splits)
  obtain r w1 where f: "found = (r, w1)"
    by (cases found)
  have w1: "PostAuthenticationCall ev \<notin> set (calls w1)"
    using log f by simp
  show ?thesis
  proof (cases r)
    case (Inl e)
    then show ?thesis
      using assms(1) w1 f Some
      by (simp add: userPasswordAuthFlow_def found_def [symmetric])
  next
    case (Inr ou)
    show ?thesis
    proof (cases ou)
      case None
      then show ?thesis
        using assms(1) w1 f Some Inr
        by (simp add: userPasswordAuthFlow_def found_def [symmetric])
    next
      case (Some u)
      have resolved: "getUserByUsername w pid (ap ''USERNAME'') = Some u
                \<or> getUserByUsername w pid (ap ''USERNAME'') = None
                  \<and> triggers_enabled srv ''UserMigration''
                  \<and> triggers_userMigration srv
                        \<lparr>um_clientId = ClientId req,
                         um_password = ap ''PASSWORD'',
                         um_userAttributes = [],
                         um_username = ap ''USERNAME'',
                         um_userPoolId = pid,
                         um_clientMetadata = None,
                         um_validationData = ClientMetadata req\<rparr> = Inr (Some u)"
        using f Inr Some
        by (auto simp: found_def userMigration_def Let_def
              split: option.splits if_splits sum.splits)
      have "ap ''PASSWORD'' = Some (Password u)
             \<and> UserStatus u \<notin> {RESET_REQUIRED, FORCE_CHANGE_PASSWORD, UNCONFIRMED}
             \<and> ev = postAuthenticationEvent_of req pid u"
        using assms(1) w1 f \<open>AuthParameters req = Some ap\<close> Inr Some
        by (auto simp: userPasswordAuthFlow_def found_def [symmetric] newPasswordChallenge_def
              v4_def verifyMfaChallenge_calls verifyPasswordChallenge_calls
              postAuthentication_def postAuthenticationEvent_of_def
              split: if_splits option.splits prod.splits)
      then show ?thesis
        using \<open>AuthParameters req = Some ap\<close> resolved by blast
    qed
  qed
qed

lemma InitiateAuth_PostAuthentication_after_checks:
  assumes "PostAuthenticationCall ev \<in> set (calls (snd (InitiateAuth srv w req)))"
    and "PostAuthenticationCall ev \<notin> set (calls w)"
  shows "AuthFlow req = ''USER_PASSWORD_AUTH''
         \<and> (\<exists>pid ap u. getUserPoolForClientId w (ClientId req) = Inr pid
               \<and> AuthParameters req = Some ap
               \<and> (getUserByUsername w pid (ap ''USERNAME'') = Some u
                    \<or> getUserByUsername w pid (ap ''USERNAME'') = None
                      \<and> triggers_enabled srv ''UserMigration''
                      \<and> triggers_userMigration srv
                            \<lparr>um_clientId = ClientId req,
                             um_password = ap ''PASSWORD'',
                             um_userAttributes = [],
                             um_username = ap ''USERNAME'',
                             um_userPoolId = pid,
                             um_clientMetadata = None,
                             um_validationData = ClientMetadata req\<rparr> = Inr (Some u))
               \<and> ap ''PASSWORD'' = Some (Password u)
               \<and> UserStatus u \<notin> {RESET_REQUIRED, FORCE_CHANGE_PASSWORD, UNCONFIRMED}
               \<and> ev = postAuthenticationEvent_of req pid u)"
proof -
  obtain pid client where
    r: "getUserPoolForClientId w (ClientId req) = Inr pid"
       "getAppClient w (ClientId req) = Some client"
    using assms by (auto simp: InitiateAuth_def split: sum.splits option.splits)
  have flow: "AuthFlow req = ''USER_PASSWORD_AUTH''"
    using assms r refreshTokenAuthFlow_no_PostAuthentication [of ev srv w req pid client]
    by (auto simp: InitiateAuth_def split: if_splits)
  then have "InitiateAuth srv w req = userPasswordAuthFlow srv w req pid client"
    using r by (simp add: InitiateAuth_def)
  then show ?thesis
    using assms r(1) flow
      userPasswordAuthFlow_PostAuthentication_after_checks [of ev srv w req pid client]
    by auto
qed

lemma userPasswordAuthFlow_requires_AuthParameters:
  assumes "getUserPoolForClientId w (ClientId req) = Inr pid"
    and "getAppClient w (ClientId req) = Some client"
    and "AuthFlow req = ''USER_PASSWORD_AUTH''"
    and "AuthParameters req = None"
  shows "InitiateAuth srv w req
           = (Inl (InvalidParameterError ''Missing required parameter authParameters''), w)"
  using assms by (simp add: InitiateAuth_def userPasswordAuthFlow_def)

lemma refreshTokenAuthFlow_requires_REFRESH_TOKEN:
  assumes "AuthParameters req = Some ap"
    and "ap ''REFRESH_TOKEN'' = None \<or> ap ''REFRESH_TOKEN'' = Some []"
  shows "refreshTokenAuthFlow srv w req pid client
           = (Inl (InvalidParameterError ''AuthParameters REFRESH_TOKEN is required''), w)"
  using assms by (auto simp: refreshTokenAuthFlow_def)

lemmas scenario_defs =
  world_with_def pool_with_def c1_def alice_def services_with_def login_def

lemmas facade_defs =
  getUserPoolForClientId_def getUserPool_def getAppClient_def options_of_def

lemmas store_defs =
  getUserByUsername_def getUserByRefreshToken_def users_of_def same_name_def lower_def
  saveUser_def storeRefreshToken_def listUserGroupMembership_def setUserMFAPreference_def

lemmas runtime_defs = v4_def userMigration_def postAuthentication_def generate_def

section \<open>The claims\<close>

text \<open>
  C1. A \<open>USER_PASSWORD_AUTH\<close> request whose user is found in the pool with status
  \<open>CONFIRMED\<close> and the matching password, where the MFA gate does not apply (the pool's
  MFA is neither \<open>ON\<close> nor \<open>OPTIONAL\<close> with an MFA option on the user), issues tokens:
  the generator is called with reason \<open>Authentication\<close>, the refresh token it
  returns is stored on the user by \<open>storeRefreshToken\<close>, and the response carries the
  generator's tokens as its \<open>AuthenticationResult\<close>. The user's \<open>Enabled\<close> flag is
  not read. The theorem supposes what the happy path needs besides: a bound
  \<open>PostAuthentication\<close> hook accepts, and the generator returns tokens.
\<close>

theorem InitiateAuth_password_issues_tokens:
  assumes "getUserPoolForClientId w (ClientId req) = Inr pid"
    and "getAppClient w (ClientId req) = Some client"
    and "AuthFlow req = ''USER_PASSWORD_AUTH''"
    and "AuthParameters req = Some ap"
    and "getUserByUsername w pid (ap ''USERNAME'') = Some u"
    and "UserStatus u = CONFIRMED"
    and "ap ''PASSWORD'' = Some (Password u)"
    and "\<not> (options_of w pid = Some ON
            \<or> (options_of w pid = Some OPTIONAL \<and> (\<exists>m ms. MFAOptions u = Some (m # ms))))"
    and "triggers_enabled srv ''PostAuthentication'' \<longrightarrow>
           triggers_postAuthentication srv
             \<lparr>pa_clientId = Some (ClientId req), pa_clientMetadata = None,
              pa_source = ''PostAuthentication_Authentication'',
              pa_userAttributes = Attributes u, pa_username = Username u,
              pa_userPoolId = pid\<rparr> = None"
    and "tokenGenerator_generate srv (clock w) (uuids w (uuidsUsed w)) u
           (listUserGroupMembership w pid u) client None ''Authentication'' = Inr toks"
  shows "\<exists>resp w' u'.
           InitiateAuth srv w req = (Inr resp, w')
         \<and> AuthenticationResult resp = Some toks
         \<and> last (calls w') = GenerateCall (Username u) ''Authentication''
         \<and> pools w' = pools (storeRefreshToken w pid (RefreshToken toks) u)
         \<and> getUserByUsername w' pid (Some (Username u)) = Some u'
         \<and> set (RefreshTokens u') = insert (RefreshToken toks) (set (RefreshTokens u))"
proof -
  obtain p where p: "pools w pid = Some p"
    using resolved_pool_exists [OF assms(1)] by blast
  have flow: "InitiateAuth srv w req = userPasswordAuthFlow srv w req pid client"
    using assms(1-3) by (rule InitiateAuth_dispatch_password)
  define ev where "ev = \<lparr>pa_clientId = Some (ClientId req), pa_clientMetadata = None,
              pa_source = ''PostAuthentication_Authentication'',
              pa_userAttributes = Attributes u, pa_username = Username u,
              pa_userPoolId = pid\<rparr>"
  define w2 where "w2 = (if triggers_enabled srv ''PostAuthentication''
                         then w\<lparr>calls := calls w @ [PostAuthenticationCall ev]\<rparr> else w)"
  define w3 where "w3 = w2\<lparr>uuidsUsed := Suc (uuidsUsed w2),
                            calls := calls w2 @ [GenerateCall (Username u) ''Authentication'']\<rparr>"
  define t where "t = RefreshToken toks"
  define u1 where "u1 = u\<lparr>RefreshTokens :=
            (if t \<in> set (RefreshTokens u) then RefreshTokens u else RefreshTokens u @ [t])\<rparr>"
  define resp where "resp = \<lparr>ChallengeName = Some ''PASSWORD_VERIFIER'',
                ChallengeParameters = Some [],
                Session = None,
                AuthenticationResult = Some toks\<rparr>"
  have w2_frame: "pools w2 = pools w" "clock w2 = clock w" "uuids w2 = uuids w"
      "uuidsUsed w2 = uuidsUsed w"
    by (simp_all add: w2_def)
  have groups: "listUserGroupMembership w2 pid u = listUserGroupMembership w pid u"
    by (simp add: listUserGroupMembership_def w2_frame)
  have verify: "verifyPasswordChallenge srv w2 u pid client
                  = (Inr resp, storeRefreshToken w3 pid t u)"
    using assms(10)
    by (simp add: verifyPasswordChallenge_def generate_def v4_def groups w2_frame
        resp_def w3_def t_def)
  have "userPasswordAuthFlow srv w req pid client = verifyPasswordChallenge srv w2 u pid client"
    using assms(8,9)
    by (auto simp add: userPasswordAuthFlow_checked [OF assms(4,5) _ _ _ assms(7)] assms(6)
          w2_def ev_def)
  then have run: "userPasswordAuthFlow srv w req pid client
               = (Inr resp, storeRefreshToken w3 pid t u)"
    using verify by simp
  have store: "storeRefreshToken w3 pid t u = saveUser w3 pid u1"
    by (simp add: storeRefreshToken_def u1_def)
  have w3_frame: "pools w3 = pools w" "clock w3 = clock w"
    by (simp_all add: w3_def w2_frame)
  have "last (calls (saveUser w3 pid u1)) = GenerateCall (Username u) ''Authentication''"
    by (simp add: saveUser_def w3_def split: option.splits)
  moreover have "pools (saveUser w3 pid u1) = pools (storeRefreshToken w pid t u)"
    unfolding storeRefreshToken_def u1_def [symmetric]
    by (rule saveUser_pools_cong) (simp_all add: w3_frame)
  moreover have "getUserByUsername (saveUser w3 pid u1) pid (Some (Username u))
                   = Some (u1\<lparr>UserLastModifiedDate := clock w3\<rparr>)"
    using getUserByUsername_saveUser [of w3 pid p u1] p
    by (simp add: w3_frame u1_def)
  moreover have "set (RefreshTokens (u1\<lparr>UserLastModifiedDate := clock w3\<rparr>))
                   = insert t (set (RefreshTokens u))"
    by (auto simp: u1_def)
  moreover have "AuthenticationResult resp = Some toks"
    by (simp add: resp_def)
  ultimately show ?thesis
    unfolding flow run store t_def [symmetric] by blast
qed

theorem InitiateAuth_password_issues_tokens_witness:
  "\<exists>resp w' u'.
      InitiateAuth (services_with (\<lambda>h. False) None) (world_with OFF [alice])
        (login ''USER_PASSWORD_AUTH'' (credentials ''alice'' ''p@ss'')) = (Inr resp, w')
    \<and> AuthenticationResult resp =
        Some \<lparr>AccessToken = ''access-uuid-'', IdToken = ''id-uuid-'',
              RefreshToken = ''refresh-uuid-'', ExpiresIn = Some 3600,
              TokenType = Some ''Bearer''\<rparr>
    \<and> last (calls w') = GenerateCall ''alice'' ''Authentication''
    \<and> getUserByUsername w' ''us-east-1_S1'' (Some ''alice'') = Some u'
    \<and> set (RefreshTokens u') = {''refresh-uuid-''}"
proof -
  let ?srv = "services_with (\<lambda>h. False) None"
  let ?w = "world_with OFF [alice]"
  let ?req = "login ''USER_PASSWORD_AUTH'' (credentials ''alice'' ''p@ss'')"
  let ?ap = "[''USERNAME'' \<mapsto> ''alice'', ''PASSWORD'' \<mapsto> ''p@ss'']"
  let ?toks = "\<lparr>AccessToken = ''access-uuid-'', IdToken = ''id-uuid-'',
                RefreshToken = ''refresh-uuid-'', ExpiresIn = Some 3600,
                TokenType = Some ''Bearer''\<rparr>"
  have h1: "getUserPoolForClientId ?w (ClientId ?req) = Inr ''us-east-1_S1''"
    by (simp add: scenario_defs facade_defs)
  have h2: "getAppClient ?w (ClientId ?req) = Some c1"
    by (simp add: scenario_defs facade_defs)
  have h3: "AuthFlow ?req = ''USER_PASSWORD_AUTH''"
    by (simp add: login_def)
  have h4: "AuthParameters ?req = Some ?ap"
    by (simp add: login_def credentials_def)
  have h5: "getUserByUsername ?w ''us-east-1_S1'' (?ap ''USERNAME'') = Some alice"
    by (simp add: scenario_defs store_defs)
  have h6: "UserStatus alice = CONFIRMED"
    by (simp add: alice_def)
  have h7: "?ap ''PASSWORD'' = Some (Password alice)"
    by (simp add: alice_def)
  have h8: "\<not> (options_of ?w ''us-east-1_S1'' = Some ON
            \<or> (options_of ?w ''us-east-1_S1'' = Some OPTIONAL
                \<and> (\<exists>m ms. MFAOptions alice = Some (m # ms))))"
    by (simp add: scenario_defs facade_defs)
  have h9: "triggers_enabled ?srv ''PostAuthentication'' \<longrightarrow>
           triggers_postAuthentication ?srv
             \<lparr>pa_clientId = Some (ClientId ?req), pa_clientMetadata = None,
              pa_source = ''PostAuthentication_Authentication'',
              pa_userAttributes = Attributes alice, pa_username = Username alice,
              pa_userPoolId = ''us-east-1_S1''\<rparr> = None"
    by (simp add: services_with_def)
  have h10: "tokenGenerator_generate ?srv (clock ?w) (uuids ?w (uuidsUsed ?w)) alice
           (listUserGroupMembership ?w ''us-east-1_S1'' alice) c1 None ''Authentication''
           = Inr ?toks"
    by (simp add: services_with_def world_with_def)
  from InitiateAuth_password_issues_tokens [OF h1 h2 h3 h4 h5 h6 h7 h8 h9 h10]
  obtain resp w' u' where
    r: "InitiateAuth ?srv ?w ?req = (Inr resp, w')"
      "AuthenticationResult resp = Some ?toks"
      "last (calls w') = GenerateCall (Username alice) ''Authentication''"
      "getUserByUsername w' ''us-east-1_S1'' (Some (Username alice)) = Some u'"
      "set (RefreshTokens u') = insert (RefreshToken ?toks) (set (RefreshTokens alice))"
    by blast
  have "last (calls w') = GenerateCall ''alice'' ''Authentication''"
    using r(3) by (simp add: alice_def)
  moreover have "getUserByUsername w' ''us-east-1_S1'' (Some ''alice'') = Some u'"
    using r(4) by (simp add: alice_def)
  moreover have "set (RefreshTokens u') = {''refresh-uuid-''}"
    using r(5) by (simp add: alice_def)
  ultimately show ?thesis
    using r(1,2) by blast
qed

text \<open>
  C2. In the \<open>USER_PASSWORD_AUTH\<close> flow, for a user found in the pool, the checks run in
  this order: status \<open>RESET_REQUIRED\<close> fails with \<open>PasswordResetRequired\<close>; status
  \<open>FORCE_CHANGE_PASSWORD\<close> returns the \<open>NEW_PASSWORD_REQUIRED\<close> challenge; then a
  password that differs fails with \<open>InvalidPassword\<close>; and an \<open>UNCONFIRMED\<close> user
  fails with \<open>UserNotConfirmed\<close> only when the password matched. So an
  \<open>UNCONFIRMED\<close> user with a wrong password gets \<open>InvalidPassword\<close>. Every failure
  leaves the state as it was.
\<close>

theorem password_flow_check_order:
  assumes "getUserPoolForClientId w (ClientId req) = Inr pid"
    and "getAppClient w (ClientId req) = Some client"
    and "AuthFlow req = ''USER_PASSWORD_AUTH''"
    and "AuthParameters req = Some ap"
    and "getUserByUsername w pid (ap ''USERNAME'') = Some u"
  shows "(UserStatus u = RESET_REQUIRED \<longrightarrow>
            InitiateAuth srv w req = (Inl PasswordResetRequiredError, w))
       \<and> (UserStatus u = FORCE_CHANGE_PASSWORD \<longrightarrow>
            InitiateAuth srv w req =
              (Inr \<lparr>ChallengeName = Some ''NEW_PASSWORD_REQUIRED'',
                    ChallengeParameters =
                      Some [(''USER_ID_FOR_SRP'', Username u),
                            (''requiredAttributes'', ''[]''),
                            (''userAttributes'', attributesJson srv (Attributes u))],
                    Session = Some (uuids w (uuidsUsed w)),
                    AuthenticationResult = None\<rparr>,
               w\<lparr>uuidsUsed := Suc (uuidsUsed w)\<rparr>))
       \<and> (UserStatus u \<noteq> RESET_REQUIRED \<and> UserStatus u \<noteq> FORCE_CHANGE_PASSWORD
            \<and> ap ''PASSWORD'' \<noteq> Some (Password u) \<longrightarrow>
            InitiateAuth srv w req = (Inl InvalidPasswordError, w))
       \<and> (UserStatus u = UNCONFIRMED \<and> ap ''PASSWORD'' = Some (Password u) \<longrightarrow>
            InitiateAuth srv w req = (Inl UserNotConfirmedException, w))
       \<and> (UserStatus u = UNCONFIRMED \<and> ap ''PASSWORD'' \<noteq> Some (Password u) \<longrightarrow>
            InitiateAuth srv w req = (Inl InvalidPasswordError, w))"
proof -
  have flow: "InitiateAuth srv w req = userPasswordAuthFlow srv w req pid client"
    using assms(1-3) by (rule InitiateAuth_dispatch_password)
  show ?thesis
    unfolding flow using assms(4,5)
    by (auto simp: userPasswordAuthFlow_def newPasswordChallenge_def v4_def)
qed

theorem password_flow_check_order_witness:
  "InitiateAuth (services_with (\<lambda>h. False) None)
      (world_with OFF [alice\<lparr>UserStatus := RESET_REQUIRED\<rparr>])
      (login ''USER_PASSWORD_AUTH'' (credentials ''alice'' ''wrong''))
     = (Inl PasswordResetRequiredError, world_with OFF [alice\<lparr>UserStatus := RESET_REQUIRED\<rparr>])
   \<and> fst (InitiateAuth (services_with (\<lambda>h. False) None)
      (world_with OFF [alice\<lparr>UserStatus := FORCE_CHANGE_PASSWORD\<rparr>])
      (login ''USER_PASSWORD_AUTH'' (credentials ''alice'' ''wrong'')))
     = Inr \<lparr>ChallengeName = Some ''NEW_PASSWORD_REQUIRED'',
            ChallengeParameters =
              Some [(''USER_ID_FOR_SRP'', ''alice''), (''requiredAttributes'', ''[]''),
                    (''userAttributes'', ''{}'')],
            Session = Some ''uuid-'', AuthenticationResult = None\<rparr>
   \<and> InitiateAuth (services_with (\<lambda>h. False) None)
      (world_with OFF [alice\<lparr>UserStatus := UNCONFIRMED\<rparr>])
      (login ''USER_PASSWORD_AUTH'' (credentials ''alice'' ''wrong''))
     = (Inl InvalidPasswordError, world_with OFF [alice\<lparr>UserStatus := UNCONFIRMED\<rparr>])
   \<and> InitiateAuth (services_with (\<lambda>h. False) None)
      (world_with OFF [alice\<lparr>UserStatus := UNCONFIRMED\<rparr>])
      (login ''USER_PASSWORD_AUTH'' (credentials ''alice'' ''p@ss''))
     = (Inl UserNotConfirmedException, world_with OFF [alice\<lparr>UserStatus := UNCONFIRMED\<rparr>])"
  using
    password_flow_check_order
      [of "world_with OFF [alice\<lparr>UserStatus := RESET_REQUIRED\<rparr>]"
          "login ''USER_PASSWORD_AUTH'' (credentials ''alice'' ''wrong'')"
          "''us-east-1_S1''" c1 "[''USERNAME'' \<mapsto> ''alice'', ''PASSWORD'' \<mapsto> ''wrong'']"
          "alice\<lparr>UserStatus := RESET_REQUIRED\<rparr>" "services_with (\<lambda>h. False) None"]
    password_flow_check_order
      [of "world_with OFF [alice\<lparr>UserStatus := FORCE_CHANGE_PASSWORD\<rparr>]"
          "login ''USER_PASSWORD_AUTH'' (credentials ''alice'' ''wrong'')"
          "''us-east-1_S1''" c1 "[''USERNAME'' \<mapsto> ''alice'', ''PASSWORD'' \<mapsto> ''wrong'']"
          "alice\<lparr>UserStatus := FORCE_CHANGE_PASSWORD\<rparr>" "services_with (\<lambda>h. False) None"]
    password_flow_check_order
      [of "world_with OFF [alice\<lparr>UserStatus := UNCONFIRMED\<rparr>]"
          "login ''USER_PASSWORD_AUTH'' (credentials ''alice'' ''wrong'')"
          "''us-east-1_S1''" c1 "[''USERNAME'' \<mapsto> ''alice'', ''PASSWORD'' \<mapsto> ''wrong'']"
          "alice\<lparr>UserStatus := UNCONFIRMED\<rparr>" "services_with (\<lambda>h. False) None"]
    password_flow_check_order
      [of "world_with OFF [alice\<lparr>UserStatus := UNCONFIRMED\<rparr>]"
          "login ''USER_PASSWORD_AUTH'' (credentials ''alice'' ''p@ss'')"
          "''us-east-1_S1''" c1 "[''USERNAME'' \<mapsto> ''alice'', ''PASSWORD'' \<mapsto> ''p@ss'']"
          "alice\<lparr>UserStatus := UNCONFIRMED\<rparr>" "services_with (\<lambda>h. False) None"]
  by (simp add: scenario_defs facade_defs store_defs credentials_def)

text \<open>
  C3. A password login of a user found in the pool whose password matched (and whose
  status let the password check count), in a pool whose MFA is \<open>ON\<close>, or
  \<open>OPTIONAL\<close> with at least one MFA option on the user, enters the MFA sub-flow. With
  an absent or empty \<open>UserMFASettingList\<close> the call fails with \<open>NotAuthorized\<close>; with
  a list that lacks \<open>SOFTWARE_TOKEN_MFA\<close> it fails with \<open>Unsupported\<close>; otherwise the
  user is saved with \<open>MFACode\<close> \<open>999999\<close> and the response is the
  \<open>SOFTWARE_TOKEN_MFA\<close> challenge with \<open>USER_ID_FOR_SRP\<close> the user's name and, as
  \<open>Session\<close>, the next identifier of the supply, which is consumed. In all three cases
  neither a trigger nor the token generator is called.
\<close>

theorem password_login_mfa_gate:
  assumes "getUserPoolForClientId w (ClientId req) = Inr pid"
    and "getAppClient w (ClientId req) = Some client"
    and "AuthFlow req = ''USER_PASSWORD_AUTH''"
    and "AuthParameters req = Some ap"
    and "getUserByUsername w pid (ap ''USERNAME'') = Some u"
    and "UserStatus u \<noteq> RESET_REQUIRED"
    and "UserStatus u \<noteq> FORCE_CHANGE_PASSWORD"
    and "UserStatus u \<noteq> UNCONFIRMED"
    and "ap ''PASSWORD'' = Some (Password u)"
    and "options_of w pid = Some ON
           \<or> (options_of w pid = Some OPTIONAL \<and> (\<exists>m ms. MFAOptions u = Some (m # ms)))"
  shows "(UserMFASettingList u = None \<or> UserMFASettingList u = Some [] \<longrightarrow>
            InitiateAuth srv w req = (Inl NotAuthorizedError, w))
       \<and> (\<forall>l. UserMFASettingList u = Some l \<and> l \<noteq> [] \<and> ''SOFTWARE_TOKEN_MFA'' \<notin> set l \<longrightarrow>
            InitiateAuth srv w req
              = (Inl (UnsupportedError ''MFA challenge without SOFTWARE_TOKEN''), w))
       \<and> (\<forall>l. UserMFASettingList u = Some l \<and> ''SOFTWARE_TOKEN_MFA'' \<in> set l \<longrightarrow>
            InitiateAuth srv w req
              = (Inr \<lparr>ChallengeName = Some ''SOFTWARE_TOKEN_MFA'',
                      ChallengeParameters = Some [(''USER_ID_FOR_SRP'', Username u)],
                      Session = Some (uuids w (uuidsUsed w)),
                      AuthenticationResult = None\<rparr>,
                 (saveUser w pid (u\<lparr>MFACode := Some ''999999''\<rparr>))
                   \<lparr>uuidsUsed := Suc (uuidsUsed w)\<rparr>)
            \<and> getUserByUsername (snd (InitiateAuth srv w req)) pid (Some (Username u))
              = Some (u\<lparr>MFACode := Some ''999999'', UserLastModifiedDate := clock w\<rparr>))
       \<and> calls (snd (InitiateAuth srv w req)) = calls w"
proof -
  obtain p where p: "pools w pid = Some p"
    using resolved_pool_exists [OF assms(1)] by blast
  have flow: "InitiateAuth srv w req = verifyMfaChallenge w u pid"
    using assms(10)
    by (simp add: InitiateAuth_dispatch_password [OF assms(1-3)]
          userPasswordAuthFlow_checked [OF assms(4-9)])
  let ?u = "u\<lparr>MFACode := Some ''999999''\<rparr>"
  have frame: "uuids (saveUser w pid ?u) = uuids w" "uuidsUsed (saveUser w pid ?u) = uuidsUsed w"
    by (simp_all add: saveUser_def p)
  have a: "UserMFASettingList u = None \<or> UserMFASettingList u = Some [] \<longrightarrow>
            verifyMfaChallenge w u pid = (Inl NotAuthorizedError, w)"
    by (auto simp: verifyMfaChallenge_def)
  have b: "\<forall>l. UserMFASettingList u = Some l \<and> l \<noteq> [] \<and> ''SOFTWARE_TOKEN_MFA'' \<notin> set l \<longrightarrow>
            verifyMfaChallenge w u pid
              = (Inl (UnsupportedError ''MFA challenge without SOFTWARE_TOKEN''), w)"
    by (auto simp: verifyMfaChallenge_def)
  have c1: "\<forall>l. UserMFASettingList u = Some l \<and> ''SOFTWARE_TOKEN_MFA'' \<in> set l \<longrightarrow>
            verifyMfaChallenge w u pid
              = (Inr \<lparr>ChallengeName = Some ''SOFTWARE_TOKEN_MFA'',
                      ChallengeParameters = Some [(''USER_ID_FOR_SRP'', Username u)],
                      Session = Some (uuids w (uuidsUsed w)),
                      AuthenticationResult = None\<rparr>,
                 (saveUser w pid ?u)\<lparr>uuidsUsed := Suc (uuidsUsed w)\<rparr>)"
    by (auto simp: verifyMfaChallenge_def v4_def frame)
  have saved: "getUserByUsername ((saveUser w pid ?u)\<lparr>uuidsUsed := Suc (uuidsUsed w)\<rparr>) pid
                 (Some (Username u))
               = Some (u\<lparr>MFACode := Some ''999999'', UserLastModifiedDate := clock w\<rparr>)"
    using getUserByUsername_saveUser [of w pid p ?u] p
    by (simp add: getUserByUsername_def users_of_def)
  have d: "calls (snd (verifyMfaChallenge w u pid)) = calls w"
    by (simp add: verifyMfaChallenge_def v4_def saveUser_calls Let_def split: option.splits)
  show ?thesis
    unfolding flow using a b c1 saved d by simp
qed

theorem password_login_mfa_gate_witness:
  "InitiateAuth (services_with (\<lambda>h. False) None) (world_with ON [alice_mfa None])
      (login ''USER_PASSWORD_AUTH'' (credentials ''alice'' ''p@ss''))
     = (Inl NotAuthorizedError, world_with ON [alice_mfa None])
   \<and> InitiateAuth (services_with (\<lambda>h. False) None) (world_with ON [alice_mfa (Some [''SMS_MFA''])])
      (login ''USER_PASSWORD_AUTH'' (credentials ''alice'' ''p@ss''))
     = (Inl (UnsupportedError ''MFA challenge without SOFTWARE_TOKEN''),
        world_with ON [alice_mfa (Some [''SMS_MFA''])])
   \<and> fst (InitiateAuth (services_with (\<lambda>h. False) None)
            (world_with ON [alice_mfa (Some [''SOFTWARE_TOKEN_MFA''])])
            (login ''USER_PASSWORD_AUTH'' (credentials ''alice'' ''p@ss'')))
     = Inr \<lparr>ChallengeName = Some ''SOFTWARE_TOKEN_MFA'',
            ChallengeParameters = Some [(''USER_ID_FOR_SRP'', ''alice'')],
            Session = Some ''uuid-'', AuthenticationResult = None\<rparr>
   \<and> getUserByUsername
        (snd (InitiateAuth (services_with (\<lambda>h. False) None)
               (world_with ON [alice_mfa (Some [''SOFTWARE_TOKEN_MFA''])])
               (login ''USER_PASSWORD_AUTH'' (credentials ''alice'' ''p@ss''))))
        ''us-east-1_S1'' (Some ''alice'')
     = Some ((alice_mfa (Some [''SOFTWARE_TOKEN_MFA'']))
               \<lparr>MFACode := Some ''999999'', UserLastModifiedDate := 7\<rparr>)"
  using
    password_login_mfa_gate
      [of "world_with ON [alice_mfa None]"
          "login ''USER_PASSWORD_AUTH'' (credentials ''alice'' ''p@ss'')"
          "''us-east-1_S1''" c1 "[''USERNAME'' \<mapsto> ''alice'', ''PASSWORD'' \<mapsto> ''p@ss'']"
          "alice_mfa None" "services_with (\<lambda>h. False) None"]
    password_login_mfa_gate
      [of "world_with ON [alice_mfa (Some [''SMS_MFA''])]"
          "login ''USER_PASSWORD_AUTH'' (credentials ''alice'' ''p@ss'')"
          "''us-east-1_S1''" c1 "[''USERNAME'' \<mapsto> ''alice'', ''PASSWORD'' \<mapsto> ''p@ss'']"
          "alice_mfa (Some [''SMS_MFA''])" "services_with (\<lambda>h. False) None"]
    password_login_mfa_gate
      [of "world_with ON [alice_mfa (Some [''SOFTWARE_TOKEN_MFA''])]"
          "login ''USER_PASSWORD_AUTH'' (credentials ''alice'' ''p@ss'')"
          "''us-east-1_S1''" c1 "[''USERNAME'' \<mapsto> ''alice'', ''PASSWORD'' \<mapsto> ''p@ss'']"
          "alice_mfa (Some [''SOFTWARE_TOKEN_MFA''])" "services_with (\<lambda>h. False) None"]
  by (simp add: scenario_defs facade_defs store_defs credentials_def alice_mfa_def)

text \<open>
  C4. The claim says that the refresh flow returns the refresh token unchanged. Alice
  holds the refresh tokens \<open>rt-1\<close> and \<open>rt-2\<close>. With the generator of the scenarios, the
  request for \<open>rt-1\<close> is answered with the generator's new refresh token, which
  resolves to no user afterwards. With any services at all, the requests for \<open>rt-1\<close> and
  for \<open>rt-2\<close> get the same answer, so it cannot return both tokens unchanged. The other
  parts of the claim hold: see \<open>refreshTokenAuthFlow_calls\<close>,
  \<open>refreshTokenAuthFlow_store_unchanged\<close> and \<open>refreshTokenAuthFlow_unknown_token\<close>.
\<close>

theorem refresh_returns_unstored_token:
  "fst (InitiateAuth (services_with (\<lambda>h. False) None) (world_with OFF [alice_tokens])
          (refresh ''REFRESH_TOKEN_AUTH'' ''rt-1''))
     = Inr \<lparr>ChallengeName = None, ChallengeParameters = None, Session = Some ''uuid-x'',
            AuthenticationResult =
              Some \<lparr>AccessToken = ''access-uuid-'', IdToken = ''id-uuid-'',
                    RefreshToken = ''refresh-uuid-'', ExpiresIn = Some 3600,
                    TokenType = Some ''Bearer''\<rparr>\<rparr>
   \<and> getUserByRefreshToken
        (snd (InitiateAuth (services_with (\<lambda>h. False) None) (world_with OFF [alice_tokens])
               (refresh ''REFRESH_TOKEN_AUTH'' ''rt-1'')))
        ''us-east-1_S1'' ''refresh-uuid-'' = None
   \<and> fst (InitiateAuth srv (world_with OFF [alice_tokens]) (refresh ''REFRESH_TOKEN_AUTH'' ''rt-1''))
     = fst (InitiateAuth srv (world_with OFF [alice_tokens]) (refresh ''REFRESH_TOKEN_AUTH'' ''rt-2''))"
  by (simp add: InitiateAuth_def refreshTokenAuthFlow_def refresh_def alice_tokens_def
        scenario_defs facade_defs store_defs runtime_defs split: sum.splits)

text \<open>
  C5. The claim says that \<open>ADMIN_USER_PASSWORD_AUTH\<close> is handled like
  \<open>USER_PASSWORD_AUTH\<close> and that \<open>USER_SRP_AUTH\<close> answers a \<open>PASSWORD_VERIFIER\<close>
  challenge. In scenario S1 both flows fail with \<open>Unsupported\<close>, with alice's right
  password, where \<open>USER_PASSWORD_AUTH\<close> issues tokens.
\<close>

theorem InitiateAuth_dispatch_counterexample:
  "InitiateAuth (services_with (\<lambda>h. False) None) (world_with OFF [alice])
      (login ''ADMIN_USER_PASSWORD_AUTH'' (credentials ''alice'' ''p@ss''))
     = (Inl (UnsupportedError ''InitAuth with AuthFlow=ADMIN_USER_PASSWORD_AUTH''),
        world_with OFF [alice])
   \<and> InitiateAuth (services_with (\<lambda>h. False) None) (world_with OFF [alice])
      (login ''USER_SRP_AUTH'' (credentials ''alice'' ''p@ss''))
     = (Inl (UnsupportedError ''InitAuth with AuthFlow=USER_SRP_AUTH''),
        world_with OFF [alice])
   \<and> fst (InitiateAuth (services_with (\<lambda>h. False) None) (world_with OFF [alice])
      (login ''USER_PASSWORD_AUTH'' (credentials ''alice'' ''p@ss'')))
     = Inr \<lparr>ChallengeName = Some ''PASSWORD_VERIFIER'', ChallengeParameters = Some [],
            Session = None,
            AuthenticationResult =
              Some \<lparr>AccessToken = ''access-uuid-'', IdToken = ''id-uuid-'',
                    RefreshToken = ''refresh-uuid-'', ExpiresIn = Some 3600,
                    TokenType = Some ''Bearer''\<rparr>\<rparr>"
  by (simp add: InitiateAuth_def userPasswordAuthFlow_def verifyPasswordChallenge_def
        scenario_defs facade_defs store_defs runtime_defs credentials_def)

text \<open>
  C5, as the handler dispatches: once the pool and the app client are resolved,
  \<open>USER_PASSWORD_AUTH\<close> runs the password flow, \<open>REFRESH_TOKEN\<close> and
  \<open>REFRESH_TOKEN_AUTH\<close> run the refresh flow, and every other flow fails with
  \<open>Unsupported\<close>, the flow's name in the message, leaving the state unchanged.
\<close>

theorem InitiateAuth_dispatch:
  assumes "getUserPoolForClientId w (ClientId req) = Inr pid"
    and "getAppClient w (ClientId req) = Some client"
  shows "(AuthFlow req = ''USER_PASSWORD_AUTH'' \<longrightarrow>
            InitiateAuth srv w req = userPasswordAuthFlow srv w req pid client)
       \<and> (AuthFlow req = ''REFRESH_TOKEN'' \<or> AuthFlow req = ''REFRESH_TOKEN_AUTH'' \<longrightarrow>
            InitiateAuth srv w req = refreshTokenAuthFlow srv w req pid client)
       \<and> (AuthFlow req \<notin> {''USER_PASSWORD_AUTH'', ''REFRESH_TOKEN'', ''REFRESH_TOKEN_AUTH''} \<longrightarrow>
            InitiateAuth srv w req
              = (Inl (UnsupportedError (''InitAuth with AuthFlow='' @ AuthFlow req)), w))"
  using assms by (auto simp: InitiateAuth_def)

theorem InitiateAuth_dispatch_witness:
  "InitiateAuth (services_with (\<lambda>h. False) None) (world_with OFF [alice])
      (login ''CUSTOM_AUTH'' (credentials ''alice'' ''p@ss''))
     = (Inl (UnsupportedError ''InitAuth with AuthFlow=CUSTOM_AUTH''), world_with OFF [alice])
   \<and> InitiateAuth (services_with (\<lambda>h. False) None) (world_with OFF [alice])
      (login ''USER_PASSWORD_AUTH'' (credentials ''alice'' ''p@ss''))
     = userPasswordAuthFlow (services_with (\<lambda>h. False) None) (world_with OFF [alice])
         (login ''USER_PASSWORD_AUTH'' (credentials ''alice'' ''p@ss'')) ''us-east-1_S1'' c1
   \<and> InitiateAuth (services_with (\<lambda>h. False) None) (world_with OFF [alice_tokens])
      (refresh ''REFRESH_TOKEN'' ''rt-1'')
     = refreshTokenAuthFlow (services_with (\<lambda>h. False) None) (world_with OFF [alice_tokens])
         (refresh ''REFRESH_TOKEN'' ''rt-1'') ''us-east-1_S1'' c1"
  using
    InitiateAuth_dispatch
      [of "world_with OFF [alice]" "login ''CUSTOM_AUTH'' (credentials ''alice'' ''p@ss'')"
          "''us-east-1_S1''" c1 "services_with (\<lambda>h. False) None"]
    InitiateAuth_dispatch
      [of "world_with OFF [alice]" "login ''USER_PASSWORD_AUTH'' (credentials ''alice'' ''p@ss'')"
          "''us-east-1_S1''" c1 "services_with (\<lambda>h. False) None"]
    InitiateAuth_dispatch
      [of "world_with OFF [alice_tokens]" "refresh ''REFRESH_TOKEN'' ''rt-1''"
          "''us-east-1_S1''" c1 "services_with (\<lambda>h. False) None"]
  by (simp add: world_with_def pool_with_def c1_def login_def refresh_def facade_defs)

text \<open>
  C6. The claim says that no response carries both a \<open>ChallengeName\<close> and an
  \<open>AuthenticationResult\<close>. The successful password login of scenario S1 answers with
  \<open>ChallengeName\<close> \<open>PASSWORD_VERIFIER\<close> next to the tokens; the refresh flow leaves
  \<open>ChallengeName\<close> undefined next to its tokens.
\<close>

theorem password_login_answers_challenge_and_tokens:
  "fst (InitiateAuth (services_with (\<lambda>h. False) None) (world_with OFF [alice])
      (login ''USER_PASSWORD_AUTH'' (credentials ''alice'' ''p@ss'')))
     = Inr \<lparr>ChallengeName = Some ''PASSWORD_VERIFIER'', ChallengeParameters = Some [],
            Session = None,
            AuthenticationResult =
              Some \<lparr>AccessToken = ''access-uuid-'', IdToken = ''id-uuid-'',
                    RefreshToken = ''refresh-uuid-'', ExpiresIn = Some 3600,
                    TokenType = Some ''Bearer''\<rparr>\<rparr>"
  by (simp add: InitiateAuth_def userPasswordAuthFlow_def verifyPasswordChallenge_def
        scenario_defs facade_defs store_defs runtime_defs credentials_def)

text \<open>
  C7. The claim says that a \<open>USER_PASSWORD_AUTH\<close> request without \<open>USERNAME\<close> or
  without \<open>PASSWORD\<close> fails with \<open>InvalidParameter\<close>. The password flow tests only
  that \<open>AuthParameters\<close> is there (see \<open>userPasswordAuthFlow_requires_AuthParameters\<close>)
  and hands the undefined values on, where the refresh flow rejects a missing
  \<open>REFRESH_TOKEN\<close> with \<open>InvalidParameter\<close>. In scenario S1 the request that names alice
  and carries no password fails with \<open>InvalidPassword\<close>, and the request that carries
  her password and no name fails with \<open>NotAuthorized\<close>. In scenario S6 the request that
  carries bob's password and no name is handed to the migration hook and answered with
  tokens.
\<close>

theorem missing_credentials_not_rejected:
  "InitiateAuth (services_with (\<lambda>h. False) None) (world_with OFF [alice])
      (login ''USER_PASSWORD_AUTH'' (Some [''USERNAME'' \<mapsto> ''alice'']))
     = (Inl InvalidPasswordError, world_with OFF [alice])
   \<and> InitiateAuth (services_with (\<lambda>h. False) None) (world_with OFF [alice])
      (login ''USER_PASSWORD_AUTH'' (Some [''PASSWORD'' \<mapsto> ''p@ss'']))
     = (Inl NotAuthorizedError, world_with OFF [alice])
   \<and> fst (InitiateAuth (services_migrating bob) (world_with OFF [alice])
      (login ''USER_PASSWORD_AUTH'' (Some [''PASSWORD'' \<mapsto> ''secret''])))
     = Inr \<lparr>ChallengeName = Some ''PASSWORD_VERIFIER'', ChallengeParameters = Some [],
            Session = None,
            AuthenticationResult =
              Some \<lparr>AccessToken = ''access-uuid-'', IdToken = ''id-uuid-'',
                    RefreshToken = ''refresh-uuid-'', ExpiresIn = Some 3600,
                    TokenType = Some ''Bearer''\<rparr>\<rparr>"
  by (simp add: InitiateAuth_def userPasswordAuthFlow_def verifyPasswordChallenge_def
        services_migrating_def bob_def scenario_defs facade_defs store_defs runtime_defs)

text \<open>
  C8. On the password path without MFA gate, a bound \<open>PostAuthentication\<close> hook is
  called first. When it fails with \<open>e\<close>, the login fails with \<open>e\<close> and the state is
  the one before the call but for the record of the hook's call: the pools, hence every
  user's \<open>RefreshTokens\<close>, are untouched and the generator was never called. When it
  accepts, the generator's call follows the hook's.
\<close>

theorem postAuthentication_failure_aborts_login:
  assumes "getUserPoolForClientId w (ClientId req) = Inr pid"
    and "getAppClient w (ClientId req) = Some client"
    and "AuthFlow req = ''USER_PASSWORD_AUTH''"
    and "AuthParameters req = Some ap"
    and "getUserByUsername w pid (ap ''USERNAME'') = Some u"
    and "UserStatus u \<noteq> RESET_REQUIRED"
    and "UserStatus u \<noteq> FORCE_CHANGE_PASSWORD"
    and "UserStatus u \<noteq> UNCONFIRMED"
    and "ap ''PASSWORD'' = Some (Password u)"
    and "\<not> (options_of w pid = Some ON
            \<or> (options_of w pid = Some OPTIONAL \<and> (\<exists>m ms. MFAOptions u = Some (m # ms))))"
    and "triggers_enabled srv ''PostAuthentication''"
  shows "(\<forall>e. triggers_postAuthentication srv (postAuthenticationEvent_of req pid u) = Some e \<longrightarrow>
            InitiateAuth srv w req
              = (Inl e, w\<lparr>calls := calls w
                     @ [PostAuthenticationCall (postAuthenticationEvent_of req pid u)]\<rparr>))
       \<and> (triggers_postAuthentication srv (postAuthenticationEvent_of req pid u) = None \<longrightarrow>
            calls (snd (InitiateAuth srv w req))
              = calls w @ [PostAuthenticationCall (postAuthenticationEvent_of req pid u),
                           GenerateCall (Username u) ''Authentication''])"
proof -
  let ?ev = "\<lparr>pa_clientId = Some (ClientId req), pa_clientMetadata = None,
      pa_source = ''PostAuthentication_Authentication'',
      pa_userAttributes = Attributes u, pa_username = Username u,
      pa_userPoolId = pid\<rparr>"
  let ?w1 = "w\<lparr>calls := calls w @ [PostAuthenticationCall ?ev]\<rparr>"
  have flow: "InitiateAuth srv w req =
                (case triggers_postAuthentication srv ?ev of
                   Some e \<Rightarrow> (Inl e, ?w1)
                 | None \<Rightarrow> verifyPasswordChallenge srv ?w1 u pid client)"
    using assms(10,11)
    by (auto simp add: InitiateAuth_dispatch_password [OF assms(1-3)]
          userPasswordAuthFlow_checked [OF assms(4-9)])
  have gen: "calls (snd (verifyPasswordChallenge srv ?w1 u pid client))
               = calls ?w1 @ [GenerateCall (Username u) ''Authentication'']"
    by (simp add: verifyPasswordChallenge_def generate_def v4_def storeRefreshToken_def
          saveUser_calls split: sum.splits)
  show ?thesis
    unfolding postAuthenticationEvent_of_def flow using gen by (simp split: option.splits)
qed

theorem postAuthentication_failure_aborts_login_witness:
  "InitiateAuth (services_with (\<lambda>h. h = ''PostAuthentication'') (Some (TriggerError ''denied'')))
      (world_with OFF [alice]) (login ''USER_PASSWORD_AUTH'' (credentials ''alice'' ''p@ss''))
     = (Inl (TriggerError ''denied''),
        (world_with OFF [alice])
          \<lparr>calls := [PostAuthenticationCall
                       (postAuthenticationEvent_of
                          (login ''USER_PASSWORD_AUTH'' (credentials ''alice'' ''p@ss''))
                          ''us-east-1_S1'' alice)]\<rparr>)
   \<and> calls (snd (InitiateAuth (services_with (\<lambda>h. h = ''PostAuthentication'') None)
        (world_with OFF [alice]) (login ''USER_PASSWORD_AUTH'' (credentials ''alice'' ''p@ss''))))
     = [PostAuthenticationCall
          (postAuthenticationEvent_of
             (login ''USER_PASSWORD_AUTH'' (credentials ''alice'' ''p@ss''))
             ''us-east-1_S1'' alice),
        GenerateCall ''alice'' ''Authentication'']"
  using
    postAuthentication_failure_aborts_login
      [of "world_with OFF [alice]"
          "login ''USER_PASSWORD_AUTH'' (credentials ''alice'' ''p@ss'')"
          "''us-east-1_S1''" c1 "[''USERNAME'' \<mapsto> ''alice'', ''PASSWORD'' \<mapsto> ''p@ss'']"
          alice "services_with (\<lambda>h. h = ''PostAuthentication'') (Some (TriggerError ''denied''))"]
    postAuthentication_failure_aborts_login
      [of "world_with OFF [alice]"
          "login ''USER_PASSWORD_AUTH'' (credentials ''alice'' ''p@ss'')"
          "''us-east-1_S1''" c1 "[''USERNAME'' \<mapsto> ''alice'', ''PASSWORD'' \<mapsto> ''p@ss'']"
          alice "services_with (\<lambda>h. h = ''PostAuthentication'') None"]
  by (simp add: scenario_defs facade_defs store_defs credentials_def)

text \<open>
  C9. The claim says that only a login that passed the credential checks fires the
  \<open>PostAuthentication\<close> hook. With the hook bound, \<open>AdminSetUserMFAPreference\<close> for
  alice, which checks no credential, calls it, with the source
  \<open>PostAuthentication_Authentication\<close>, after it has saved the preference. Inside
  \<open>InitiateAuth\<close> the hook is called only once the password has matched: see
  \<open>InitiateAuth_PostAuthentication_after_checks\<close>.
\<close>

theorem AdminSetUserMFAPreference_fires_PostAuthentication:
  "AdminSetUserMFAPreference (services_with (\<lambda>h. h = ''PostAuthentication'') None)
      (world_with OFF [alice]) (setPreference ''alice'')
     = (Inr (),
        (world_with OFF [alice\<lparr>UserLastModifiedDate := 7\<rparr>])
          \<lparr>calls := [PostAuthenticationCall
                       \<lparr>pa_clientId = None, pa_clientMetadata = None,
                        pa_source = ''PostAuthentication_Authentication'',
                        pa_userAttributes = [], pa_username = ''alice'',
                        pa_userPoolId = ''us-east-1_S1''\<rparr>]\<rparr>)"
  by (simp add: AdminSetUserMFAPreference_def setPreference_def
        scenario_defs facade_defs store_defs runtime_defs)

text \<open>
  C10. When the \<open>Username\<close> of an \<open>AdminSetUserMFAPreference\<close> request resolves to no
  user of the pool, the call fails with \<open>InvalidParameter\<close> and the message
  \<open>User does not exist\<close>, not with \<open>UserNotFound\<close>, and changes nothing.
\<close>

theorem AdminSetUserMFAPreference_unknown_user:
  assumes "getUserPool w (adm_UserPoolId req) = Inr pid"
    and "getUserByUsername w pid (Some (adm_Username req)) = None"
  shows "AdminSetUserMFAPreference srv w req
           = (Inl (InvalidParameterError ''User does not exist''), w)
         \<and> fst (AdminSetUserMFAPreference srv w req) \<noteq> Inl UserNotFoundError"
  using assms by (simp add: AdminSetUserMFAPreference_def)

theorem AdminSetUserMFAPreference_unknown_user_witness:
  "getUserPool (world_with OFF [alice]) (adm_UserPoolId (setPreference ''bob'')) = Inr ''us-east-1_S1''
   \<and> getUserByUsername (world_with OFF [alice]) ''us-east-1_S1'' (Some (adm_Username (setPreference ''bob''))) = None
   \<and> AdminSetUserMFAPreference (services_with (\<lambda>h. False) None) (world_with OFF [alice])
        (setPreference ''bob'')
      = (Inl (InvalidParameterError ''User does not exist''), world_with OFF [alice])"
  using AdminSetUserMFAPreference_unknown_user
          [of "world_with OFF [alice]" "setPreference ''bob''" "''us-east-1_S1''"
              "services_with (\<lambda>h. False) None"]
  by (simp add: scenario_defs facade_defs store_defs setPreference_def)

end
